theory Spec2Isabelle
  imports Main
begin

section \<open>Values of the JavaScript run time\<close>

text \<open>
  The page in \<^verbatim>\<open>src/app/page.tsx\<close> receives whatever \<^verbatim>\<open>res.json()\<close> parses; the
  TypeScript annotations are erased when it runs. A parsed body is a JSON value. Numbers
  are modelled as integers (a position is an ordinal); strings are lists of code units
  in the range 0 to 255. An object is the list of its own properties, each key once.
  A value that may be \<^verbatim>\<open>undefined\<close> is a \<open>json option\<close>, with \<open>None\<close> for
  \<^verbatim>\<open>undefined\<close>.
\<close>

datatype json =
    JNull
  | JBool bool
  | JNum int
  | JStr string
  | JArr "json list"
  | JObj "(string \<times> json) list"

text \<open>The value carried by a rejected promise or a \<^verbatim>\<open>throw\<close>. Only its
  \<^verbatim>\<open>message\<close> is ever read, through \<^verbatim>\<open>err?.message\<close>; \<open>None\<close> stands for every
  nullish outcome of that read (no value thrown, or a value without a message).\<close>

datatype thrown = Thrown (message: "string option")

definition dquote :: char where
  "dquote = CHR 0x22"


definition apostrophe :: char where
  "apostrophe = CHR 0x27"

text \<open>\<^verbatim>\<open>Boolean(v)\<close>: the falsy values are \<^verbatim>\<open>undefined\<close>, \<^verbatim>\<open>null\<close>, \<^verbatim>\<open>false\<close>,
  \<^verbatim>\<open>0\<close> and the empty string (JSON has no NaN).\<close>

fun truthy :: "json \<Rightarrow> bool" where
  "truthy JNull = False"
| "truthy (JBool b) = b"
| "truthy (JNum n) = (n \<noteq> 0)"
| "truthy (JStr s) = (s \<noteq> [])"
| "truthy (JArr xs) = True"
| "truthy (JObj kvs) = True"

definition Boolean :: "json option \<Rightarrow> bool" where
  "Boolean v = (case v of None \<Rightarrow> False | Some x \<Rightarrow> truthy x)"

text \<open>\<^verbatim>\<open>v ?? d\<close>: the default replaces \<^verbatim>\<open>undefined\<close> and \<^verbatim>\<open>null\<close> only.\<close>

definition nullish_or :: "json option \<Rightarrow> json \<Rightarrow> json" where
  "nullish_or v d = (case v of None \<Rightarrow> d | Some JNull \<Rightarrow> d | Some x \<Rightarrow> x)"

text \<open>\<^verbatim>\<open>data.k\<close> for the three property names the page reads (\<^verbatim>\<open>mentioned\<close>,
  \<^verbatim>\<open>position\<close>, \<^verbatim>\<open>error\<close>): reading a property of \<^verbatim>\<open>null\<close> throws a TypeError
  (the wording of its message is the engine's, here V8's); a primitive or an array has no
  such property; an object gives its own property or \<^verbatim>\<open>undefined\<close>.\<close>

fun get_prop :: "json \<Rightarrow> string \<Rightarrow> thrown + json option" where
  "get_prop JNull k =
     Inl (Thrown (Some (''Cannot read properties of null (reading '' @ [apostrophe] @ k @ [apostrophe] @ '')'')))"
| "get_prop (JObj kvs) k = Inr (map_of kvs k)"
| "get_prop (JBool b) k = Inr None"
| "get_prop (JNum n) k = Inr None"
| "get_prop (JStr s) k = Inr None"
| "get_prop (JArr xs) k = Inr None"

text \<open>Decimal numerals, for \<^verbatim>\<open>String(n)\<close> and for a number inside a template literal:
  what JavaScript prints for a safe integer, and so for every HTTP status.\<close>

fun string_of_nat :: "nat \<Rightarrow> string" where
  "string_of_nat n =
     (if n < 10 then [''0123456789'' ! n]
      else string_of_nat (n div 10) @ [''0123456789'' ! (n mod 10)])"

definition string_of_int :: "int \<Rightarrow> string" where
  "string_of_int i =
     (if i < 0 then CHR ''-'' # string_of_nat (nat (- i)) else string_of_nat (nat i))"

text \<open>\<^verbatim>\<open>Array.prototype.join\<close> on an array of strings.\<close>

fun join :: "string \<Rightarrow> string list \<Rightarrow> string" where
  "join sep [] = []"
| "join sep [x] = x"
| "join sep (x # y # ys) = x @ sep @ join sep (y # ys)"

text \<open>\<^verbatim>\<open>String(v)\<close> for a value that is not \<^verbatim>\<open>undefined\<close>. An array joins its elements
  with commas, a \<^verbatim>\<open>null\<close> element giving the empty string.\<close>

fun String :: "json \<Rightarrow> string" where
  "String JNull = ''null''"
| "String (JBool b) = (if b then ''true'' else ''false'')"
| "String (JNum n) = string_of_int n"
| "String (JStr s) = s"
| "String (JArr xs) = join '','' (map (\<lambda>x. if x = JNull then [] else String x) xs)"
| "String (JObj kvs) = ''[object Object]''"

text \<open>\<^verbatim>\<open>s.trim()\<close>: white space of the modelled range is tab, line feed, vertical tab,
  form feed, carriage return, space and no-break space.\<close>

definition is_space :: "char \<Rightarrow> bool" where
  "is_space c = (c \<in> set [CHR 0x09, CHR 0x0A, CHR 0x0B, CHR 0x0C, CHR 0x0D, CHR 0x20, CHR 0xA0])"

definition trim :: "string \<Rightarrow> string" where
  "trim s = rev (dropWhile is_space (rev (dropWhile is_space s)))"

section \<open>The component's state and the network\<close>

text \<open>The interface \<^verbatim>\<open>Result\<close>. At run time \<^verbatim>\<open>position\<close> holds whatever the body
  carried (or \<^verbatim>\<open>null\<close>), and \<^verbatim>\<open>error\<close> whatever the body carried (or \<^verbatim>\<open>undefined\<close>).\<close>

record Result =
  prompt :: string
  mentioned :: bool
  position :: json
  error :: "json option"

text \<open>The five \<^verbatim>\<open>useState\<close> cells of \<^verbatim>\<open>Home\<close>.\<close>

record state =
  s_prompt :: string
  s_brand :: string
  s_results :: "Result list"
  s_error :: json
  s_loading :: bool

text \<open>The request that \<^verbatim>\<open>fetch\<close> is called with; the JSON body is kept as its two
  fields.\<close>

record request =
  url :: string
  http_method :: string
  content_type :: string
  body_prompt :: string
  body_brand :: string

text \<open>What \<^verbatim>\<open>await res.json()\<close> does: it gives the parsed value, or rejects.\<close>

datatype body_read = Json json | NotJson thrown

record response =
  status :: nat
  body :: body_read

text \<open>What \<^verbatim>\<open>await fetch(...)\<close> does: it rejects, or gives a response of any status.\<close>

datatype outcome = Rejected thrown | Responded response

text \<open>\<^verbatim>\<open>res.ok\<close> is true for the statuses 200 to 299.\<close>

definition ok :: "response \<Rightarrow> bool" where
  "ok res = (200 \<le> status res \<and> status res \<le> 299)"

text \<open>The effects of \<^verbatim>\<open>runCheck\<close>, in program order: the calls of the state setters
  and the network call.\<close>

datatype action =
    SetError json
  | SetLoading bool
  | SetResults Result
  | Fetch request

text \<open>\<^verbatim>\<open>setResults((prev) => [item, ...prev])\<close> puts the item in front of the ledger as
  it is when the update is applied.\<close>

fun apply_action :: "state \<Rightarrow> action \<Rightarrow> state" where
  "apply_action s (SetError v) = s\<lparr>s_error := v\<rparr>"
| "apply_action s (SetLoading b) = s\<lparr>s_loading := b\<rparr>"
| "apply_action s (SetResults item) = s\<lparr>s_results := item # s_results s\<rparr>"
| "apply_action s (Fetch req) = s"

section \<open>runCheck\<close>

text \<open>\<^verbatim>\<open>process.env.NEXT_PUBLIC_BACKEND_URL || "http://localhost:3001"\<close>.\<close>

definition backend_url :: "string option \<Rightarrow> string" where
  "backend_url env =
     (case env of
        None \<Rightarrow> ''http://localhost:3001''
      | Some u \<Rightarrow> if u = [] then ''http://localhost:3001'' else u)"

definition check_request :: "string option \<Rightarrow> string \<Rightarrow> string \<Rightarrow> request" where
  "check_request env p b =
     \<lparr>url = backend_url env @ ''/api/check'', http_method = ''POST'',
      content_type = ''application/json'', body_prompt = p, body_brand = b\<rparr>"

text \<open>Lines 46 to 51: the object literal \<^verbatim>\<open>item\<close>. Its three reads of \<^verbatim>\<open>data\<close>
  happen in the order written.\<close>

definition build_item :: "string \<Rightarrow> json \<Rightarrow> thrown + Result" where
  "build_item p data =
     (case get_prop data ''mentioned'' of
        Inl e \<Rightarrow> Inl e
      | Inr m \<Rightarrow>
          (case get_prop data ''position'' of
             Inl e \<Rightarrow> Inl e
           | Inr pos \<Rightarrow>
               (case get_prop data ''error'' of
                  Inl e \<Rightarrow> Inl e
                | Inr er \<Rightarrow>
                    Inr \<lparr>prompt = p, mentioned = Boolean m,
                         position = nullish_or pos JNull, error = er\<rparr>)))"

text \<open>Lines 42 to 54, once \<^verbatim>\<open>data\<close> is there: the actions performed, and the value
  thrown if one is.\<close>

definition on_data :: "string \<Rightarrow> response \<Rightarrow> json \<Rightarrow> action list \<times> thrown option" where
  "on_data p res data =
     (case (if ok res then Inr []
            else (case get_prop data ''error'' of
                    Inl e \<Rightarrow> Inl e
                  | Inr er \<Rightarrow>
                      Inr [SetError (nullish_or er
                             (JStr (''Backend returned status '' @ string_of_nat (status res))))])) of
        Inl e \<Rightarrow> ([], Some e)
      | Inr pre \<Rightarrow>
          (case build_item p data of
             Inl e \<Rightarrow> (pre, Some e)
           | Inr item \<Rightarrow>
               (case get_prop data ''error'' of
                  Inl e \<Rightarrow> (pre @ [SetResults item], Some e)
                | Inr er \<Rightarrow>
                    (pre @ [SetResults item] @
                       (case er of
                          None \<Rightarrow> []
                        | Some x \<Rightarrow> if truthy x then [SetError x] else []),
                     None))))"

text \<open>The \<^verbatim>\<open>try\<close> block, lines 29 to 54.\<close>

definition try_block ::
  "string option \<Rightarrow> (request \<Rightarrow> outcome) \<Rightarrow> string \<Rightarrow> string \<Rightarrow> action list \<times> thrown option" where
  "try_block env net p b =
     (let req = check_request env p b in
      case net req of
        Rejected e \<Rightarrow> ([Fetch req], Some e)
      | Responded res \<Rightarrow>
          (case body res of
             NotJson e \<Rightarrow> ([Fetch req], Some e)
           | Json data \<Rightarrow>
               (case on_data p res data of (acts, r) \<Rightarrow> (Fetch req # acts, r))))"

text \<open>The \<^verbatim>\<open>catch\<close> clause: \<^verbatim>\<open>(err as Error)?.message ?? "Unable to connect ..."\<close>.\<close>

definition connection_failure :: string where
  "connection_failure =
     ''Unable to connect to backend. Make sure it'' @ [apostrophe] @ ''s running on port 3001.''"

definition catch_message :: "thrown \<Rightarrow> string" where
  "catch_message err = (case message err of None \<Rightarrow> connection_failure | Some m \<Rightarrow> m)"

definition invalid_input :: string where
  "invalid_input = ''Please enter both a prompt and a brand name.''"

text \<open>\<^verbatim>\<open>runCheck\<close>, lines 19 to 63, as the list of its effects. The environment is the
  configured backend origin and the behaviour of the network.\<close>

definition runCheck :: "string option \<Rightarrow> (request \<Rightarrow> outcome) \<Rightarrow> state \<Rightarrow> action list" where
  "runCheck env net s =
     SetError (JStr []) #
     (if trim (s_prompt s) = [] \<or> trim (s_brand s) = [] then [SetError (JStr invalid_input)]
      else
        SetLoading True #
        (case try_block env net (s_prompt s) (s_brand s) of
           (acts, None) \<Rightarrow> acts
         | (acts, Some err) \<Rightarrow> acts @ [SetError (JStr (catch_message err))])
        @ [SetLoading False])"

text \<open>The state once the check has settled and every update is applied, no other
  handler writing the state in between.\<close>

definition after_runCheck :: "string option \<Rightarrow> (request \<Rightarrow> outcome) \<Rightarrow> state \<Rightarrow> state" where
  "after_runCheck env net s = foldl apply_action s (runCheck env net s)"

text \<open>A network that answers every request in the same way, and a component state with
  both inputs filled in and an empty ledger, for concrete runs.\<close>

definition always :: "outcome \<Rightarrow> request \<Rightarrow> outcome" where
  "always out req = out"

definition filled_form :: state where
  "filled_form =
     \<lparr>s_prompt = ''Best running shoes?'', s_brand = ''Nike'', s_results = [],
      s_error = JStr [], s_loading = False\<rparr>"

text \<open>Reading a run: the requests sent, the values written to \<^verbatim>\<open>loading\<close>, and
  the records put in front of the ledger, each in program order.\<close>

fun network_calls :: "action list \<Rightarrow> request list" where
  "network_calls [] = []"
| "network_calls (Fetch req # as) = req # network_calls as"
| "network_calls (SetError v # as) = network_calls as"
| "network_calls (SetLoading b # as) = network_calls as"
| "network_calls (SetResults item # as) = network_calls as"

fun loading_writes :: "action list \<Rightarrow> bool list" where
  "loading_writes [] = []"
| "loading_writes (SetLoading b # as) = b # loading_writes as"
| "loading_writes (SetError v # as) = loading_writes as"
| "loading_writes (SetResults item # as) = loading_writes as"
| "loading_writes (Fetch req # as) = loading_writes as"

fun appended :: "action list \<Rightarrow> Result list" where
  "appended [] = []"
| "appended (SetResults item # as) = item # appended as"
| "appended (SetError v # as) = appended as"
| "appended (SetLoading b # as) = appended as"
| "appended (Fetch req # as) = appended as"

text \<open>The value of \<^verbatim>\<open>data.k\<close> where that read does not throw: the object's own
  property, \<open>None\<close> (\<^verbatim>\<open>undefined\<close>) where there is none.\<close>

definition own_prop :: "json \<Rightarrow> string \<Rightarrow> json option" where
  "own_prop data k = (case data of JObj kvs \<Rightarrow> map_of kvs k | _ \<Rightarrow> None)"

section \<open>The CSV export\<close>

text \<open>\<^verbatim>\<open>escapeCSV\<close>, lines 65 to 70.\<close>

definition escapeCSV :: "json option \<Rightarrow> string" where
  "escapeCSV v =
     (if v = Some JNull \<or> v = None then []
      else
        (let str = String (the v);
             escaped = concat (map (\<lambda>c. if c = dquote then [dquote, dquote] else [c]) str)
         in dquote # escaped @ [dquote]))"

definition csv_row :: "Result \<Rightarrow> string" where
  "csv_row r =
     escapeCSV (Some (JStr (prompt r))) @ '','' @
     escapeCSV (Some (JBool (mentioned r))) @ '','' @
     escapeCSV (Some (position r))"


section \<open>Reading the export back\<close>






text \<open>A quoted field: it starts and ends with a double quote, and these are two
  characters.\<close>

definition enclosed_in_quotes :: "string \<Rightarrow> bool" where
  "enclosed_in_quotes f = (2 \<le> length f \<and> hd f = dquote \<and> last f = dquote)"







section \<open>Facts about one run\<close>

lemma get_prop_own: "data \<noteq> JNull \<Longrightarrow> get_prop data k = Inr (own_prop data k)"
  by (cases data) (simp_all add: own_prop_def)

lemma build_item_value:
  "data \<noteq> JNull \<Longrightarrow>
   build_item p data =
     Inr \<lparr>prompt = p, mentioned = Boolean (own_prop data ''mentioned''),
          position = nullish_or (own_prop data ''position'') JNull,
          error = own_prop data ''error''\<rparr>"
  by (simp add: build_item_def get_prop_own)

lemma on_data_null: "\<exists>e. on_data p res JNull = ([], Some e)"
  by (simp add: on_data_def build_item_def)

lemma on_data_value:
  "data \<noteq> JNull \<Longrightarrow>
   on_data p res data =
     ((if ok res then []
       else [SetError (nullish_or (own_prop data ''error'')
               (JStr (''Backend returned status '' @ string_of_nat (status res))))]) @
      [SetResults \<lparr>prompt = p, mentioned = Boolean (own_prop data ''mentioned''),
          position = nullish_or (own_prop data ''position'') JNull,
          error = own_prop data ''error''\<rparr>] @
      (case own_prop data ''error'' of
         None \<Rightarrow> []
       | Some x \<Rightarrow> if truthy x then [SetError x] else []),
      None)"
  by (simp add: on_data_def build_item_value get_prop_own)

lemma runCheck_invalid:
  "trim (s_prompt s) = [] \<or> trim (s_brand s) = [] \<Longrightarrow>
   runCheck env net s = [SetError (JStr []), SetError (JStr invalid_input)]"
  by (simp add: runCheck_def)

lemma runCheck_thrown:
  "trim (s_prompt s) \<noteq> [] \<Longrightarrow> trim (s_brand s) \<noteq> [] \<Longrightarrow>
   try_block env net (s_prompt s) (s_brand s) = (acts, Some e) \<Longrightarrow>
   runCheck env net s =
     SetError (JStr []) # SetLoading True # acts @ [SetError (JStr (catch_message e)), SetLoading False]"
  by (simp add: runCheck_def)

lemma runCheck_completed:
  "trim (s_prompt s) \<noteq> [] \<Longrightarrow> trim (s_brand s) \<noteq> [] \<Longrightarrow>
   try_block env net (s_prompt s) (s_brand s) = (acts, None) \<Longrightarrow>
   runCheck env net s = SetError (JStr []) # SetLoading True # acts @ [SetLoading False]"
  by (simp add: runCheck_def)

lemma try_block_rejected:
  "net (check_request env p b) = Rejected e \<Longrightarrow>
   try_block env net p b = ([Fetch (check_request env p b)], Some e)"
  by (simp add: try_block_def)

lemma try_block_not_json:
  "net (check_request env p b) = Responded res \<Longrightarrow> body res = NotJson e \<Longrightarrow>
   try_block env net p b = ([Fetch (check_request env p b)], Some e)"
  by (simp add: try_block_def)

lemma try_block_json:
  "net (check_request env p b) = Responded res \<Longrightarrow> body res = Json data \<Longrightarrow>
   try_block env net p b =
     (Fetch (check_request env p b) # fst (on_data p res data), snd (on_data p res data))"
  by (simp add: try_block_def split: prod.splits)

lemma results_foldl:
  "s_results (foldl apply_action s acts) = rev (appended acts) @ s_results s"
proof (induction acts arbitrary: s)
  case Nil
  show ?case by simp
next
  case (Cons a acts)
  show ?case by (cases a) (simp_all add: Cons.IH)
qed

lemma valid_run_shape:
  assumes "trim (s_prompt s) \<noteq> []" and "trim (s_brand s) \<noteq> []"
  shows "\<exists>rest. runCheck env net s =
           [SetError (JStr []), SetLoading True, Fetch (check_request env (s_prompt s) (s_brand s))]
             @ rest @ [SetLoading False]
         \<and> loading_writes rest = [] \<and> network_calls rest = [] \<and> length (appended rest) \<le> 1"
proof (cases "net (check_request env (s_prompt s) (s_brand s))")
  case (Rejected e)
  then have "try_block env net (s_prompt s) (s_brand s) =
      ([Fetch (check_request env (s_prompt s) (s_brand s))], Some e)"
    by (simp add: try_block_rejected)
  from runCheck_thrown [OF assms this] show ?thesis by simp
next
  case (Responded res)
  show ?thesis
  proof (cases "body res")
    case (NotJson e)
    with Responded have "try_block env net (s_prompt s) (s_brand s) =
        ([Fetch (check_request env (s_prompt s) (s_brand s))], Some e)"
      by (simp add: try_block_not_json)
    from runCheck_thrown [OF assms this] show ?thesis by simp
  next
    case (Json data)
    with Responded have tb: "try_block env net (s_prompt s) (s_brand s) =
        (Fetch (check_request env (s_prompt s) (s_brand s)) # fst (on_data (s_prompt s) res data),
         snd (on_data (s_prompt s) res data))"
      by (simp add: try_block_json)
    show ?thesis
    proof (cases "data = JNull")
      case True
      then obtain e where "on_data (s_prompt s) res data = ([], Some e)"
        using on_data_null by blast
      with tb have "try_block env net (s_prompt s) (s_brand s) =
          ([Fetch (check_request env (s_prompt s) (s_brand s))], Some e)" by simp
      from runCheck_thrown [OF assms this] show ?thesis by simp
    next
      case False
      define acts where "acts = fst (on_data (s_prompt s) res data)"
      have snd_none: "snd (on_data (s_prompt s) res data) = None"
        by (simp add: on_data_value [OF False])
      have shape: "loading_writes acts = [] \<and> network_calls acts = [] \<and> length (appended acts) \<le> 1"
        unfolding acts_def
        by (simp add: on_data_value [OF False] split: option.splits)
      from tb snd_none have "try_block env net (s_prompt s) (s_brand s) =
          (Fetch (check_request env (s_prompt s) (s_brand s)) # acts, None)"
        by (simp add: acts_def)
      from runCheck_completed [OF assms this] shape show ?thesis by simp
    qed
  qed
qed

lemma runCheck_rejected:
  assumes "trim (s_prompt s) \<noteq> []" and "trim (s_brand s) \<noteq> []"
    and "net (check_request env (s_prompt s) (s_brand s)) = Rejected e"
  shows "runCheck env net s =
     [SetError (JStr []), SetLoading True, Fetch (check_request env (s_prompt s) (s_brand s)),
      SetError (JStr (catch_message e)), SetLoading False]"
proof -
  from assms(3) have "try_block env net (s_prompt s) (s_brand s) =
      ([Fetch (check_request env (s_prompt s) (s_brand s))], Some e)"
    by (simp add: try_block_rejected)
  from runCheck_thrown [OF assms(1,2) this] show ?thesis by simp
qed

lemma runCheck_not_json:
  assumes "trim (s_prompt s) \<noteq> []" and "trim (s_brand s) \<noteq> []"
    and "net (check_request env (s_prompt s) (s_brand s)) = Responded res"
    and "body res = NotJson e"
  shows "runCheck env net s =
     [SetError (JStr []), SetLoading True, Fetch (check_request env (s_prompt s) (s_brand s)),
      SetError (JStr (catch_message e)), SetLoading False]"
proof -
  from assms(3,4) have "try_block env net (s_prompt s) (s_brand s) =
      ([Fetch (check_request env (s_prompt s) (s_brand s))], Some e)"
    by (simp add: try_block_not_json)
  from runCheck_thrown [OF assms(1,2) this] show ?thesis by simp
qed

lemma runCheck_json:
  assumes "trim (s_prompt s) \<noteq> []" and "trim (s_brand s) \<noteq> []"
    and "net (check_request env (s_prompt s) (s_brand s)) = Responded res"
    and "body res = Json data" and "data \<noteq> JNull"
  shows "runCheck env net s =
     [SetError (JStr []), SetLoading True, Fetch (check_request env (s_prompt s) (s_brand s))] @
     (if ok res then []
      else [SetError (nullish_or (own_prop data ''error'')
              (JStr (''Backend returned status '' @ string_of_nat (status res))))]) @
     [SetResults \<lparr>prompt = s_prompt s, mentioned = Boolean (own_prop data ''mentioned''),
         position = nullish_or (own_prop data ''position'') JNull,
         error = own_prop data ''error''\<rparr>] @
     (case own_prop data ''error'' of
        None \<Rightarrow> []
      | Some x \<Rightarrow> if truthy x then [SetError x] else []) @
     [SetLoading False]"
proof -
  from assms(3,4) have "try_block env net (s_prompt s) (s_brand s) =
        (Fetch (check_request env (s_prompt s) (s_brand s)) # fst (on_data (s_prompt s) res data),
         snd (on_data (s_prompt s) res data))"
    by (simp add: try_block_json)
  then have "try_block env net (s_prompt s) (s_brand s) =
        (Fetch (check_request env (s_prompt s) (s_brand s)) # fst (on_data (s_prompt s) res data), None)"
    by (simp add: on_data_value [OF assms(5)])
  from runCheck_completed [OF assms(1,2) this] show ?thesis
    by (simp add: on_data_value [OF assms(5)])
qed

lemma Boolean_falsy:
  "Boolean v = (v \<noteq> None \<and> v \<noteq> Some JNull \<and> v \<noteq> Some (JBool False)
                 \<and> v \<noteq> Some (JNum 0) \<and> v \<noteq> Some (JStr []))"
proof (cases v)
  case None
  then show ?thesis by (simp add: Boolean_def)
next
  case (Some x)
  then show ?thesis by (cases x) (simp_all add: Boolean_def)
qed

lemma appended_append: "appended (xs @ ys) = appended xs @ appended ys"
  by (induction xs rule: appended.induct) simp_all

section \<open>Facts about the export and its reader\<close>



lemma escapeCSV_value:
  "x \<noteq> JNull \<Longrightarrow>
   escapeCSV (Some x) =
     dquote # concat (map (\<lambda>c. if c = dquote then [dquote, dquote] else [c]) (String x)) @ [dquote]"
  by (simp add: escapeCSV_def)




















section \<open>The check workflow\<close>

text \<open>C5. When the prompt or the brand trims to the empty string, \<^verbatim>\<open>runCheck\<close> leaves the
  message "Please enter both a prompt and a brand name." as the top-level error, the ledger
  is unchanged and nothing is put in front of it, \<^verbatim>\<open>fetch\<close> is not called, and
  \<^verbatim>\<open>loading\<close> is never written.\<close>

theorem invalid_input_appends_nothing:
  assumes "trim (s_prompt s) = [] \<or> trim (s_brand s) = []"
  shows "s_error (after_runCheck env net s) = JStr ''Please enter both a prompt and a brand name.''
       \<and> s_results (after_runCheck env net s) = s_results s
       \<and> appended (runCheck env net s) = []
       \<and> network_calls (runCheck env net s) = []
       \<and> loading_writes (runCheck env net s) = []
       \<and> s_loading (after_runCheck env net s) = s_loading s"
  by (simp add: after_runCheck_def runCheck_invalid [OF assms] invalid_input_def)

text \<open>The statement at a concrete run.\<close>

theorem invalid_input_appends_nothing_witness:
  "(trim (s_prompt (filled_form\<lparr>s_brand := ''  ''\<rparr>)) = []
      \<or> trim (s_brand (filled_form\<lparr>s_brand := ''  ''\<rparr>)) = [])
   \<and> s_error (after_runCheck None (always (Rejected (Thrown None))) (filled_form\<lparr>s_brand := ''  ''\<rparr>))
        = JStr ''Please enter both a prompt and a brand name.''
   \<and> s_results (after_runCheck None (always (Rejected (Thrown None))) (filled_form\<lparr>s_brand := ''  ''\<rparr>)) = []
   \<and> network_calls (runCheck None (always (Rejected (Thrown None))) (filled_form\<lparr>s_brand := ''  ''\<rparr>)) = []
   \<and> loading_writes (runCheck None (always (Rejected (Thrown None))) (filled_form\<lparr>s_brand := ''  ''\<rparr>)) = []"
proof -
  have h: "trim (s_prompt (filled_form\<lparr>s_brand := ''  ''\<rparr>)) = []
      \<or> trim (s_brand (filled_form\<lparr>s_brand := ''  ''\<rparr>)) = []"
    by (simp add: filled_form_def trim_def is_space_def)
  show ?thesis
    using h invalid_input_appends_nothing [OF h, of None "always (Rejected (Thrown None))"]
    by (simp add: filled_form_def)
qed

text \<open>C8. When both inputs pass validation, \<^verbatim>\<open>loading\<close> is set to true before the one
  call of \<^verbatim>\<open>fetch\<close>, nothing else writes it until the last effect of the run, which
  sets it to false: whatever the network does (a rejection, a body that does not parse, a
  property read that throws, an error status, a success), the settled state is idle.\<close>

theorem loading_released_on_every_path:
  assumes "trim (s_prompt s) \<noteq> []" and "trim (s_brand s) \<noteq> []"
  shows "(\<exists>rest. runCheck env net s =
            [SetError (JStr []), SetLoading True,
             Fetch (check_request env (s_prompt s) (s_brand s))] @ rest @ [SetLoading False]
          \<and> loading_writes rest = [] \<and> network_calls rest = [])
       \<and> loading_writes (runCheck env net s) = [True, False]
       \<and> s_loading (after_runCheck env net s) = False"
proof -
  from valid_run_shape [OF assms, of env net] obtain rest where
    run: "runCheck env net s =
            [SetError (JStr []), SetLoading True,
             Fetch (check_request env (s_prompt s) (s_brand s))] @ rest @ [SetLoading False]"
    and quiet: "loading_writes rest = []" "network_calls rest = []"
    by blast
  have lw: "\<And>xs ys. loading_writes (xs @ ys) = loading_writes xs @ loading_writes ys"
  proof -
    fix xs ys show "loading_writes (xs @ ys) = loading_writes xs @ loading_writes ys"
      by (induction xs rule: loading_writes.induct) simp_all
  qed
  have "loading_writes (runCheck env net s) = [True, False]"
    by (simp add: run lw quiet)
  moreover have "s_loading (after_runCheck env net s) = False"
    by (simp add: after_runCheck_def run)
  ultimately show ?thesis using run quiet by blast
qed

text \<open>The statement at a concrete run.\<close>

theorem loading_released_on_every_path_witness:
  "trim (s_prompt filled_form) \<noteq> [] \<and> trim (s_brand filled_form) \<noteq> []
   \<and> loading_writes (runCheck None (always (Responded \<lparr>status = 503, body = Json JNull\<rparr>)) filled_form)
        = [True, False]
   \<and> s_loading (after_runCheck None (always (Responded \<lparr>status = 503, body = Json JNull\<rparr>)) filled_form)
        = False"
proof -
  have h1: "trim (s_prompt filled_form) \<noteq> []"
    by (simp add: filled_form_def trim_def is_space_def)
  have h2: "trim (s_brand filled_form) \<noteq> []"
    by (simp add: filled_form_def trim_def is_space_def)
  from loading_released_on_every_path [OF h1 h2] h1 h2 show ?thesis
    by blast
qed

text \<open>C6. When a run puts a record into the ledger, it puts exactly one, at index 0, and
  every record that was in the ledger is still there, unchanged, one index further.\<close>

theorem append_goes_to_front:
  assumes "appended (runCheck env net s) \<noteq> []"
  shows "\<exists>item. appended (runCheck env net s) = [item]
           \<and> s_results (after_runCheck env net s) = item # s_results s
           \<and> s_results (after_runCheck env net s) ! 0 = item
           \<and> length (s_results (after_runCheck env net s)) = Suc (length (s_results s))
           \<and> (\<forall>i < length (s_results s).
                 s_results (after_runCheck env net s) ! Suc i = s_results s ! i)"
proof -
  have valid: "trim (s_prompt s) \<noteq> [] \<and> trim (s_brand s) \<noteq> []"
  proof (rule ccontr)
    assume "\<not> ?thesis"
    then have "trim (s_prompt s) = [] \<or> trim (s_brand s) = []" by blast
    from runCheck_invalid [OF this] assms show False by simp
  qed
  from valid_run_shape [of s env net] valid obtain rest where
    run: "runCheck env net s =
            [SetError (JStr []), SetLoading True,
             Fetch (check_request env (s_prompt s) (s_brand s))] @ rest @ [SetLoading False]"
    and one: "length (appended rest) \<le> 1"
    by blast
  have app: "\<And>xs ys. appended (xs @ ys) = appended xs @ appended ys"
  proof -
    fix xs ys show "appended (xs @ ys) = appended xs @ appended ys"
      by (induction xs rule: appended.induct) simp_all
  qed
  have "appended (runCheck env net s) = appended rest"
    by (simp add: run app)
  with assms one obtain item where item: "appended (runCheck env net s) = [item]"
    by (cases "appended rest") auto
  have "s_results (after_runCheck env net s) = item # s_results s"
    by (simp add: after_runCheck_def results_foldl item)
  with item show ?thesis by simp
qed

text \<open>The statement at a concrete run.\<close>

theorem append_goes_to_front_witness:
  "appended (runCheck None
      (always (Responded \<lparr>status = 200, body = Json (JObj [(''mentioned'', JBool True), (''position'', JNum 3)])\<rparr>))
      (filled_form\<lparr>s_results := [\<lparr>prompt = ''older'', mentioned = False, position = JNull, error = None\<rparr>]\<rparr>)) \<noteq> []
   \<and> s_results (after_runCheck None
      (always (Responded \<lparr>status = 200, body = Json (JObj [(''mentioned'', JBool True), (''position'', JNum 3)])\<rparr>))
      (filled_form\<lparr>s_results := [\<lparr>prompt = ''older'', mentioned = False, position = JNull, error = None\<rparr>]\<rparr>))
     = [\<lparr>prompt = ''Best running shoes?'', mentioned = True, position = JNum 3, error = None\<rparr>,
        \<lparr>prompt = ''older'', mentioned = False, position = JNull, error = None\<rparr>]"
proof -
  let ?net = "always (Responded \<lparr>status = 200, body = Json (JObj [(''mentioned'', JBool True), (''position'', JNum 3)])\<rparr>)"
  let ?s = "filled_form\<lparr>s_results := [\<lparr>prompt = ''older'', mentioned = False, position = JNull, error = None\<rparr>]\<rparr>"
  have run: "appended (runCheck None ?net ?s) =
      [\<lparr>prompt = ''Best running shoes?'', mentioned = True, position = JNum 3, error = None\<rparr>]"
    by (simp add: runCheck_def filled_form_def trim_def is_space_def try_block_def always_def
        on_data_def ok_def build_item_def Boolean_def nullish_or_def)
  then have h: "appended (runCheck None ?net ?s) \<noteq> []" by simp
  from append_goes_to_front [OF h] run show ?thesis
    by (simp add: filled_form_def)
qed

text \<open>C1, as the code has it. When both inputs pass validation and \<^verbatim>\<open>fetch\<close> rejects,
  the \<^verbatim>\<open>catch\<close> clause runs: no record is put into the ledger, which stays as it was;
  the top-level error is the failure's own message, or the connection-failure default when
  that message is nullish; and \<^verbatim>\<open>loading\<close> is false afterwards.\<close>

theorem transport_failure_sets_banner_only:
  assumes "trim (s_prompt s) \<noteq> []" and "trim (s_brand s) \<noteq> []"
    and "net (check_request env (s_prompt s) (s_brand s)) = Rejected e"
  shows "appended (runCheck env net s) = []
       \<and> s_results (after_runCheck env net s) = s_results s
       \<and> s_error (after_runCheck env net s) =
           JStr (case message e of
                   Some m \<Rightarrow> m
                 | None \<Rightarrow> ''Unable to connect to backend. Make sure it'' @ [CHR 0x27] @
                            ''s running on port 3001.'')
       \<and> s_loading (after_runCheck env net s) = False"
  by (simp add: after_runCheck_def runCheck_rejected [where net = net, OF assms] catch_message_def
      connection_failure_def apostrophe_def split: option.splits)

text \<open>With the network unreachable and an empty ledger, the ledger is still empty after
  the run: there is no record at index 0.\<close>

theorem transport_failure_record_counterexample:
  "s_results (after_runCheck None (always (Rejected (Thrown None))) filled_form) = []"
  by (simp add: after_runCheck_def runCheck_def filled_form_def trim_def is_space_def
      try_block_def always_def)

text \<open>The statement at a concrete run.\<close>

theorem transport_failure_sets_banner_only_witness:
  "trim (s_prompt filled_form) \<noteq> [] \<and> trim (s_brand filled_form) \<noteq> []
   \<and> always (Rejected (Thrown None)) (check_request None (s_prompt filled_form) (s_brand filled_form))
        = Rejected (Thrown None)
   \<and> s_results (after_runCheck None (always (Rejected (Thrown None))) filled_form) = []
   \<and> s_error (after_runCheck None (always (Rejected (Thrown None))) filled_form) =
        JStr (''Unable to connect to backend. Make sure it'' @ [CHR 0x27] @ ''s running on port 3001.'')
   \<and> s_loading (after_runCheck None (always (Rejected (Thrown None))) filled_form) = False"
proof -
  have h1: "trim (s_prompt filled_form) \<noteq> []"
    by (simp add: filled_form_def trim_def is_space_def)
  have h2: "trim (s_brand filled_form) \<noteq> []"
    by (simp add: filled_form_def trim_def is_space_def)
  have h3: "always (Rejected (Thrown None)) (check_request None (s_prompt filled_form) (s_brand filled_form))
        = Rejected (Thrown None)"
    by (simp add: always_def)
  from transport_failure_sets_banner_only [where net = "always (Rejected (Thrown None))", OF h1 h2 h3] h1 h2 h3 show ?thesis
    by (simp add: filled_form_def)
qed

text \<open>C10. When both inputs pass validation and the endpoint responds, with whatever
  status, with a body that \<^verbatim>\<open>res.json()\<close> cannot parse, the run is the run of a transport
  failure carrying the same value: no record is put into the ledger, the top-level error is
  the parse error's message (the connection-failure default when it is nullish), and
  \<^verbatim>\<open>loading\<close> is false afterwards.\<close>

theorem unparsable_body_goes_to_catch:
  assumes "trim (s_prompt s) \<noteq> []" and "trim (s_brand s) \<noteq> []"
    and "net (check_request env (s_prompt s) (s_brand s)) = Responded res"
    and "body res = NotJson e"
  shows "runCheck env net s = runCheck env (always (Rejected e)) s
       \<and> appended (runCheck env net s) = []
       \<and> s_results (after_runCheck env net s) = s_results s
       \<and> s_error (after_runCheck env net s) =
           JStr (case message e of Some m \<Rightarrow> m | None \<Rightarrow> connection_failure)
       \<and> s_loading (after_runCheck env net s) = False"
proof -
  have "always (Rejected e) (check_request env (s_prompt s) (s_brand s)) = Rejected e"
    by (simp add: always_def)
  from runCheck_rejected [where net = "always (Rejected e)", OF assms(1,2) this]
    runCheck_not_json [where net = net, OF assms]
  show ?thesis
    by (simp add: after_runCheck_def catch_message_def split: option.splits)
qed

text \<open>The statement at a concrete run.\<close>

theorem unparsable_body_goes_to_catch_witness:
  "trim (s_prompt filled_form) \<noteq> [] \<and> trim (s_brand filled_form) \<noteq> []
   \<and> always (Responded \<lparr>status = 200, body = NotJson (Thrown (Some ''Unexpected token''))\<rparr>)
         (check_request None (s_prompt filled_form) (s_brand filled_form))
        = Responded \<lparr>status = 200, body = NotJson (Thrown (Some ''Unexpected token''))\<rparr>
   \<and> body \<lparr>status = 200, body = NotJson (Thrown (Some ''Unexpected token''))\<rparr>
        = NotJson (Thrown (Some ''Unexpected token''))
   \<and> s_results (after_runCheck None
         (always (Responded \<lparr>status = 200, body = NotJson (Thrown (Some ''Unexpected token''))\<rparr>))
         filled_form) = []
   \<and> s_error (after_runCheck None
         (always (Responded \<lparr>status = 200, body = NotJson (Thrown (Some ''Unexpected token''))\<rparr>))
         filled_form) = JStr ''Unexpected token''
   \<and> s_loading (after_runCheck None
         (always (Responded \<lparr>status = 200, body = NotJson (Thrown (Some ''Unexpected token''))\<rparr>))
         filled_form) = False"
proof -
  let ?res = "\<lparr>status = 200, body = NotJson (Thrown (Some ''Unexpected token''))\<rparr>"
  have h1: "trim (s_prompt filled_form) \<noteq> []"
    by (simp add: filled_form_def trim_def is_space_def)
  have h2: "trim (s_brand filled_form) \<noteq> []"
    by (simp add: filled_form_def trim_def is_space_def)
  have h3: "always (Responded ?res) (check_request None (s_prompt filled_form) (s_brand filled_form))
        = Responded ?res"
    by (simp add: always_def)
  have h4: "body ?res = NotJson (Thrown (Some ''Unexpected token''))"
    by simp
  from unparsable_body_goes_to_catch [where net = "always (Responded ?res)", OF h1 h2 h3 h4] h1 h2 h3
  show ?thesis
    by (simp add: filled_form_def)
qed

text \<open>C2, as the code has it. When both inputs pass validation and the endpoint responds
  with a status outside 200 to 299 and a JSON body other than \<^verbatim>\<open>null\<close>, one record is
  put in front of the ledger: its prompt is the submitted prompt, \<^verbatim>\<open>mentioned\<close> is the
  truthiness of the body's field, \<^verbatim>\<open>position\<close> is the body's field or \<^verbatim>\<open>null\<close>, and
  \<^verbatim>\<open>error\<close> is the body's \<^verbatim>\<open>error\<close> field as it is, \<^verbatim>\<open>undefined\<close> when the body has
  none. The top-level error is the body's \<^verbatim>\<open>error\<close> field when that is neither absent nor
  \<^verbatim>\<open>null\<close>, and "Backend returned status" with the status code otherwise.\<close>

theorem http_failure_still_recorded:
  assumes "trim (s_prompt s) \<noteq> []" and "trim (s_brand s) \<noteq> []"
    and "net (check_request env (s_prompt s) (s_brand s)) = Responded res"
    and "\<not> ok res" and "body res = Json data" and "data \<noteq> JNull"
  shows "s_results (after_runCheck env net s) =
           \<lparr>prompt = s_prompt s, mentioned = Boolean (own_prop data ''mentioned''),
            position = (case own_prop data ''position'' of None \<Rightarrow> JNull | Some v \<Rightarrow> v),
            error = own_prop data ''error''\<rparr> # s_results s
       \<and> s_error (after_runCheck env net s) =
           (case own_prop data ''error'' of
              None \<Rightarrow> JStr (''Backend returned status '' @ string_of_nat (status res))
            | Some JNull \<Rightarrow> JStr (''Backend returned status '' @ string_of_nat (status res))
            | Some x \<Rightarrow> x)
       \<and> s_loading (after_runCheck env net s) = False"
proof -
  note run = runCheck_json [where net = net, OF assms(1,2,3,5,6)]
  have pos: "nullish_or (own_prop data ''position'') JNull =
      (case own_prop data ''position'' of None \<Rightarrow> JNull | Some v \<Rightarrow> v)"
    by (simp add: nullish_or_def split: option.splits json.splits)
  have "s_results (after_runCheck env net s) =
           \<lparr>prompt = s_prompt s, mentioned = Boolean (own_prop data ''mentioned''),
            position = (case own_prop data ''position'' of None \<Rightarrow> JNull | Some v \<Rightarrow> v),
            error = own_prop data ''error''\<rparr> # s_results s"
    by (simp add: after_runCheck_def run results_foldl pos split: option.splits)
  moreover have "s_error (after_runCheck env net s) =
           (case own_prop data ''error'' of
              None \<Rightarrow> JStr (''Backend returned status '' @ string_of_nat (status res))
            | Some JNull \<Rightarrow> JStr (''Backend returned status '' @ string_of_nat (status res))
            | Some x \<Rightarrow> x)"
    using assms(4)
    by (simp add: after_runCheck_def run nullish_or_def split: option.splits json.splits)
  moreover have "s_loading (after_runCheck env net s) = False"
    by (simp add: after_runCheck_def run split: option.splits)
  ultimately show ?thesis by blast
qed

text \<open>A status 500 with the body \<^verbatim>\<open>{}\<close> gives a record whose \<^verbatim>\<open>error\<close> is
  \<^verbatim>\<open>undefined\<close>, while the top-level error is the synthesized one; a status 500 with the
  body \<^verbatim>\<open>null\<close> gives no record at all, since reading \<^verbatim>\<open>data.error\<close> throws.\<close>

theorem http_failure_record_counterexample:
  "s_results (after_runCheck None (always (Responded \<lparr>status = 500, body = Json (JObj [])\<rparr>)) filled_form)
     = [\<lparr>prompt = ''Best running shoes?'', mentioned = False, position = JNull, error = None\<rparr>]
   \<and> s_error (after_runCheck None (always (Responded \<lparr>status = 500, body = Json (JObj [])\<rparr>)) filled_form)
     = JStr ''Backend returned status 500''
   \<and> s_results (after_runCheck None (always (Responded \<lparr>status = 500, body = Json JNull\<rparr>)) filled_form)
     = []"
  by (simp add: after_runCheck_def runCheck_def filled_form_def trim_def is_space_def
      try_block_def always_def on_data_def ok_def build_item_def Boolean_def nullish_or_def)

text \<open>The statement at a concrete run.\<close>

theorem http_failure_still_recorded_witness:
  "trim (s_prompt filled_form) \<noteq> [] \<and> trim (s_brand filled_form) \<noteq> []
   \<and> always (Responded \<lparr>status = 500, body = Json (JObj [(''error'', JStr ''rate limited'')])\<rparr>)
         (check_request None (s_prompt filled_form) (s_brand filled_form))
        = Responded \<lparr>status = 500, body = Json (JObj [(''error'', JStr ''rate limited'')])\<rparr>
   \<and> \<not> ok \<lparr>status = 500, body = Json (JObj [(''error'', JStr ''rate limited'')])\<rparr>
   \<and> JObj [(''error'', JStr ''rate limited'')] \<noteq> JNull
   \<and> s_results (after_runCheck None
         (always (Responded \<lparr>status = 500, body = Json (JObj [(''error'', JStr ''rate limited'')])\<rparr>))
         filled_form)
       = [\<lparr>prompt = ''Best running shoes?'', mentioned = False, position = JNull,
           error = Some (JStr ''rate limited'')\<rparr>]
   \<and> s_error (after_runCheck None
         (always (Responded \<lparr>status = 500, body = Json (JObj [(''error'', JStr ''rate limited'')])\<rparr>))
         filled_form) = JStr ''rate limited''
   \<and> s_loading (after_runCheck None
         (always (Responded \<lparr>status = 500, body = Json (JObj [(''error'', JStr ''rate limited'')])\<rparr>))
         filled_form) = False"
proof -
  let ?data = "JObj [(''error'', JStr ''rate limited'')]"
  let ?res = "\<lparr>status = 500, body = Json ?data\<rparr>"
  have h1: "trim (s_prompt filled_form) \<noteq> []"
    by (simp add: filled_form_def trim_def is_space_def)
  have h2: "trim (s_brand filled_form) \<noteq> []"
    by (simp add: filled_form_def trim_def is_space_def)
  have h3: "always (Responded ?res) (check_request None (s_prompt filled_form) (s_brand filled_form))
        = Responded ?res"
    by (simp add: always_def)
  have h4: "\<not> ok ?res" by (simp add: ok_def)
  have h5: "body ?res = Json ?data" by simp
  have h6: "?data \<noteq> JNull" by simp
  from http_failure_still_recorded [where net = "always (Responded ?res)", OF h1 h2 h3 h4 h5 h6]
    h1 h2 h3 h4 h6
  show ?thesis
    by (simp add: filled_form_def own_prop_def Boolean_def)
qed

text \<open>C4. For a submission that passes validation and a parsed body other than
  \<^verbatim>\<open>null\<close> (on which the first property read throws), the record built at lines 46 to 51,
  which is the one record the run puts into the ledger, has: the submitted prompt, whatever
  the body holds under \<^verbatim>\<open>prompt\<close>; \<^verbatim>\<open>mentioned\<close> the truthiness of the body's field,
  false exactly for an absent field, \<^verbatim>\<open>null\<close>, \<^verbatim>\<open>false\<close>, \<^verbatim>\<open>0\<close> and the empty string;
  \<^verbatim>\<open>position\<close> the body's field when it has one, else \<^verbatim>\<open>null\<close>; \<^verbatim>\<open>error\<close> the body's
  field as it is, else \<^verbatim>\<open>undefined\<close>.\<close>

theorem response_normalized:
  assumes "trim (s_prompt s) \<noteq> []" and "trim (s_brand s) \<noteq> []"
    and "net (check_request env (s_prompt s) (s_brand s)) = Responded res"
    and "body res = Json data" and "data \<noteq> JNull"
  shows "build_item (s_prompt s) data =
           Inr \<lparr>prompt = s_prompt s, mentioned = Boolean (own_prop data ''mentioned''),
                position = (case own_prop data ''position'' of None \<Rightarrow> JNull | Some v \<Rightarrow> v),
                error = own_prop data ''error''\<rparr>
       \<and> appended (runCheck env net s) =
           [\<lparr>prompt = s_prompt s, mentioned = Boolean (own_prop data ''mentioned''),
             position = (case own_prop data ''position'' of None \<Rightarrow> JNull | Some v \<Rightarrow> v),
             error = own_prop data ''error''\<rparr>]
       \<and> Boolean v = (v \<noteq> None \<and> v \<noteq> Some JNull \<and> v \<noteq> Some (JBool False)
                        \<and> v \<noteq> Some (JNum 0) \<and> v \<noteq> Some (JStr []))"
proof -
  have pos: "nullish_or (own_prop data ''position'') JNull =
      (case own_prop data ''position'' of None \<Rightarrow> JNull | Some v \<Rightarrow> v)"
    by (simp add: nullish_or_def split: option.splits json.splits)
  have "build_item (s_prompt s) data =
           Inr \<lparr>prompt = s_prompt s, mentioned = Boolean (own_prop data ''mentioned''),
                position = (case own_prop data ''position'' of None \<Rightarrow> JNull | Some v \<Rightarrow> v),
                error = own_prop data ''error''\<rparr>"
    by (simp add: build_item_value [OF assms(5)] pos)
  moreover have "appended (runCheck env net s) =
           [\<lparr>prompt = s_prompt s, mentioned = Boolean (own_prop data ''mentioned''),
             position = (case own_prop data ''position'' of None \<Rightarrow> JNull | Some v \<Rightarrow> v),
             error = own_prop data ''error''\<rparr>]"
    by (simp add: runCheck_json [where net = net, OF assms] appended_append pos
        split: option.splits)
  ultimately show ?thesis using Boolean_falsy [of v] by blast
qed

text \<open>The statement at a concrete run.\<close>

theorem response_normalized_witness:
  "trim (s_prompt filled_form) \<noteq> [] \<and> trim (s_brand filled_form) \<noteq> []
   \<and> JObj [(''prompt'', JStr ''another prompt''), (''mentioned'', JStr ''yes''), (''position'', JNum 7)] \<noteq> JNull
   \<and> appended (runCheck None
        (always (Responded \<lparr>status = 200, body = Json (JObj [(''prompt'', JStr ''another prompt''),
             (''mentioned'', JStr ''yes''), (''position'', JNum 7)])\<rparr>)) filled_form)
      = [\<lparr>prompt = ''Best running shoes?'', mentioned = True, position = JNum 7, error = None\<rparr>]
   \<and> Boolean (Some (JNum 0)) = False"
proof -
  let ?data = "JObj [(''prompt'', JStr ''another prompt''), (''mentioned'', JStr ''yes''), (''position'', JNum 7)]"
  let ?res = "\<lparr>status = 200, body = Json ?data\<rparr>"
  have h1: "trim (s_prompt filled_form) \<noteq> []"
    by (simp add: filled_form_def trim_def is_space_def)
  have h2: "trim (s_brand filled_form) \<noteq> []"
    by (simp add: filled_form_def trim_def is_space_def)
  have h3: "always (Responded ?res) (check_request None (s_prompt filled_form) (s_brand filled_form))
        = Responded ?res"
    by (simp add: always_def)
  have h4: "body ?res = Json ?data" by simp
  have h5: "?data \<noteq> JNull" by simp
  from response_normalized [where net = "always (Responded ?res)" and v = "Some (JNum 0)",
      OF h1 h2 h3 h4 h5] h1 h2 h5
  show ?thesis
    by (simp add: filled_form_def own_prop_def Boolean_def)
qed

section \<open>The exported text\<close>

text \<open>C3, as the code has it. \<^verbatim>\<open>escapeCSV\<close> turns \<^verbatim>\<open>null\<close> and \<^verbatim>\<open>undefined\<close> into the
  empty string, with no quote characters; every other value becomes its string with each
  double quote doubled, between two double quotes. So in every row the prompt and the
  mentioned flag are quoted, and the position is quoted unless it is \<^verbatim>\<open>null\<close>.\<close>

theorem null_unquoted_others_quoted:
  "escapeCSV None = [] \<and> escapeCSV (Some JNull) = []
   \<and> (x \<noteq> JNull \<longrightarrow>
        enclosed_in_quotes (escapeCSV (Some x))
        \<and> escapeCSV (Some x) =
            dquote # concat (map (\<lambda>c. if c = dquote then [dquote, dquote] else [c]) (String x))
              @ [dquote])
   \<and> enclosed_in_quotes (escapeCSV (Some (JStr (prompt r))))
   \<and> enclosed_in_quotes (escapeCSV (Some (JBool (mentioned r))))"
proof -
  have q: "enclosed_in_quotes (escapeCSV (Some y))" if "y \<noteq> JNull" for y
    using that by (simp add: escapeCSV_value enclosed_in_quotes_def)
  have "escapeCSV None = []" and "escapeCSV (Some JNull) = []"
    by (simp_all add: escapeCSV_def)
  moreover have "enclosed_in_quotes (escapeCSV (Some (JStr (prompt r))))"
    by (rule q) simp
  moreover have "enclosed_in_quotes (escapeCSV (Some (JBool (mentioned r))))"
    by (rule q) simp
  ultimately show ?thesis
    using q [of x] escapeCSV_value [of x] by blast
qed

text \<open>The field of a \<^verbatim>\<open>null\<close> is not the two-character field of two double quotes, and
  the row of a record without a position ends with a comma.\<close>

theorem null_field_counterexample:
  "escapeCSV (Some JNull) \<noteq> [CHR 0x22, CHR 0x22]
   \<and> escapeCSV None \<noteq> [CHR 0x22, CHR 0x22]
   \<and> csv_row \<lparr>prompt = ''x'', mentioned = False, position = JNull, error = None\<rparr>
       = [CHR 0x22] @ ''x'' @ [CHR 0x22] @ '','' @ [CHR 0x22] @ ''false'' @ [CHR 0x22] @ '',''
   \<and> \<not> enclosed_in_quotes (escapeCSV (Some JNull))"
  by (simp add: escapeCSV_def csv_row_def dquote_def enclosed_in_quotes_def)

text \<open>The statement at a concrete run.\<close>

theorem null_unquoted_others_quoted_witness:
  "JNum 3 \<noteq> JNull
   \<and> escapeCSV (Some (JNum 3)) = [CHR 0x22, CHR ''3'', CHR 0x22]
   \<and> enclosed_in_quotes (escapeCSV (Some (JNum 3)))"
proof -
  have three: "string_of_int 3 = ''3''" by (simp add: string_of_int_def)
  from null_unquoted_others_quoted [of "JNum 3" "\<lparr>prompt = ''x'', mentioned = False, position = JNull, error = None\<rparr>"]
  show ?thesis
    by (simp add: three dquote_def enclosed_in_quotes_def)
qed

text \<open>C9. \<^verbatim>\<open>escapeCSV\<close> doubles every double quote of a string and wraps the result in
  double quotes; the prompt \<^verbatim>\<open>He said "hi"\<close> becomes \<^verbatim>\<open>"He said ""hi"""\<close>, also as the
  first field of its record's row.\<close>

theorem embedded_quotes_doubled:
  "escapeCSV (Some (JStr (''He said '' @ [CHR 0x22] @ ''hi'' @ [CHR 0x22])))
     = [CHR 0x22] @ ''He said '' @ [CHR 0x22, CHR 0x22] @ ''hi'' @ [CHR 0x22, CHR 0x22] @ [CHR 0x22]
   \<and> escapeCSV (Some (JStr s)) =
       [CHR 0x22] @ concat (map (\<lambda>c. if c = CHR 0x22 then [CHR 0x22, CHR 0x22] else [c]) s) @ [CHR 0x22]
   \<and> csv_row \<lparr>prompt = ''He said '' @ [CHR 0x22] @ ''hi'' @ [CHR 0x22], mentioned = True,
              position = JNum 1, error = None\<rparr>
     = [CHR 0x22] @ ''He said '' @ [CHR 0x22, CHR 0x22] @ ''hi'' @ [CHR 0x22, CHR 0x22] @ [CHR 0x22]
        @ '','' @ [CHR 0x22] @ ''true'' @ [CHR 0x22] @ '','' @ [CHR 0x22] @ ''1'' @ [CHR 0x22]"
proof -
  have one: "string_of_int 1 = ''1''" by (simp add: string_of_int_def)
  have general: "escapeCSV (Some (JStr s)) =
       [CHR 0x22] @ concat (map (\<lambda>c. if c = CHR 0x22 then [CHR 0x22, CHR 0x22] else [c]) s) @ [CHR 0x22]"
    for s
    unfolding escapeCSV_def dquote_def by simp
  have "escapeCSV (Some (JStr (''He said '' @ [CHR 0x22] @ ''hi'' @ [CHR 0x22])))
     = [CHR 0x22] @ ''He said '' @ [CHR 0x22, CHR 0x22] @ ''hi'' @ [CHR 0x22, CHR 0x22] @ [CHR 0x22]"
    by (simp add: general)
  moreover have "csv_row \<lparr>prompt = ''He said '' @ [CHR 0x22] @ ''hi'' @ [CHR 0x22], mentioned = True,
              position = JNum 1, error = None\<rparr>
     = [CHR 0x22] @ ''He said '' @ [CHR 0x22, CHR 0x22] @ ''hi'' @ [CHR 0x22, CHR 0x22] @ [CHR 0x22]
        @ '','' @ [CHR 0x22] @ ''true'' @ [CHR 0x22] @ '','' @ [CHR 0x22] @ ''1'' @ [CHR 0x22]"
    unfolding csv_row_def escapeCSV_def dquote_def by (simp add: one)
  ultimately show ?thesis using general [of s] by blast
qed

text \<open>The statement at a concrete run.\<close>

theorem embedded_quotes_doubled_witness:
  "escapeCSV (Some (JStr [CHR 0x22, CHR ''a'', CHR 0x22]))
     = [CHR 0x22, CHR 0x22, CHR 0x22, CHR ''a'', CHR 0x22, CHR 0x22, CHR 0x22]"
  using embedded_quotes_doubled [of "[CHR 0x22, CHR ''a'', CHR 0x22]"]
  by simp




end
